theory Spec2Isabelle
  imports Main
begin

section \<open>Data model\<close>

text \<open>
  Errors of \<^verbatim>\<open>github.com/pkg/errors\<close>: \<^verbatim>\<open>errors.New\<close> and \<^verbatim>\<open>errors.Errorf\<close> build an
  error from a message, \<^verbatim>\<open>errors.Wrap\<close> and \<^verbatim>\<open>errors.Wrapf\<close> annotate a non-nil cause with
  a message. An error returned by the GitHub client is a value of the same type.
\<close>

datatype error = New string | Wrap error string

fun Error :: "error \<Rightarrow> string" where
  "Error (New msg) = msg"
| "Error (Wrap cause msg) = msg @ '': '' @ Error cause"

fun Cause :: "error \<Rightarrow> error" where
  "Cause (New msg) = New msg"
| "Cause (Wrap cause msg) = Cause cause"

text \<open>
  The commit of this package: its SHA, the SHA of its tree and its parents. The type is
  declared outside the source file; the fields are the ones the source reads.
\<close>

datatype Commit = MkCommit (SHA: string) (TreeSHA: string) (Parents: "Commit list")

text \<open>The repository of this package, declared outside the source file.\<close>

datatype Repository = MkRepository (Owner: string) (Name: string)

record PullRequest =
  RepoOwner :: string
  RepoName :: string
  Number :: int
  MergeCommitSHA :: string
  Repository :: "Repository option"

text \<open>
  The types of the go-github client, with the fields that the source and the constructors
  of this package read. A pointer field may be nil; the accessors \<^verbatim>\<open>GetTree\<close> and \<^verbatim>\<open>GetSHA\<close> are nil-safe and return nil and the
  empty string on a nil receiver.
\<close>

datatype gogithub_Tree = MkTree (gh_SHA: "string option")

datatype gogithub_Commit =
  MkGHCommit (gh_CommitSHA: "string option") (gh_Tree: "gogithub_Tree option")
    (gh_Parents: "gogithub_Commit list")

datatype gogithub_RepositoryCommit = MkRepositoryCommit (gh_Commit: "gogithub_Commit option")

datatype gogithub_Repository = MkGHRepository (gh_Owner: string) (gh_Name: string)

record gogithub_ListOptions =
  Page :: int
  PerPage :: int

record gogithub_Response =
  NextPage :: int

definition GetTree :: "gogithub_Commit option \<Rightarrow> gogithub_Tree option" where
  "GetTree c = (case c of None \<Rightarrow> None | Some c' \<Rightarrow> gh_Tree c')"

definition GetSHA :: "gogithub_Tree option \<Rightarrow> string" where
  "GetSHA t = (case t of None \<Rightarrow> []
               | Some t' \<Rightarrow> (case gh_SHA t' of None \<Rightarrow> [] | Some s \<Rightarrow> s))"

text \<open>The zero value \<^verbatim>\<open>&gogithub.ListOptions{}\<close>.\<close>

definition ListOptions_zero :: gogithub_ListOptions where
  "ListOptions_zero = \<lparr>Page = 0, PerPage = 0\<rparr>"

text \<open>
  Modelled from the spec: the constants MERGE, SQUASH and REBASE are declared outside the
  source file. The spec gives the merge mode as an enumeration of the three values
  MERGE, SQUASH and REBASE; the source returns them as strings, and the empty string
  beside an error.
\<close>

definition MERGE :: string where "MERGE = ''merge''"
definition SQUASH :: string where "SQUASH = ''squash''"
definition REBASE :: string where "REBASE = ''rebase''"

section \<open>The environment\<close>

text \<open>
  What the source calls and does not define. The three services of the GitHub client
  answer with an error or a possibly nil payload; the platform is read as one snapshot,
  so an answer depends on the arguments of the call only. \<^verbatim>\<open>NewRepository\<close>,
  \<^verbatim>\<open>NewCommit\<close>, \<^verbatim>\<open>Repository.GetCommit\<close> and \<^verbatim>\<open>PullRequest.GetCommits\<close> belong to this
  package but not to the source file: they are parameters. The two constructors return
  an object, never nil.
\<close>

record github =
  Repositories_Get :: "string \<Rightarrow> string \<Rightarrow> error + gogithub_Repository option"
  Repositories_GetCommit ::
    "string \<Rightarrow> string \<Rightarrow> string \<Rightarrow> gogithub_ListOptions
       \<Rightarrow> error + gogithub_RepositoryCommit option"
  PullRequests_ListCommits ::
    "string \<Rightarrow> string \<Rightarrow> int \<Rightarrow> gogithub_ListOptions
       \<Rightarrow> error + (gogithub_RepositoryCommit list \<times> gogithub_Response)"
  NewRepository :: "gogithub_Repository option \<Rightarrow> Repository"
  NewCommit :: "gogithub_Commit option \<Rightarrow> Commit"
  Repository_GetCommit :: "Repository \<Rightarrow> string \<Rightarrow> error + Commit option"
  PullRequest_GetCommits :: "PullRequest \<Rightarrow> error + Commit list"

text \<open>
  Everything the source does besides returning: the calls it issues and the lines it logs,
  in the order of execution.
\<close>

datatype event =
    Call_Repositories_Get string string
  | Call_Repositories_GetCommit string string string gogithub_ListOptions
  | Call_PullRequests_ListCommits string string int gogithub_ListOptions
  | Call_Repository_GetCommit Repository string
  | Call_PullRequest_GetCommits
  | Logrus_Info string
  | Logrus_Error error

text \<open>A call of the source returns its values, or panics.\<close>

datatype 'a outcome = Returned 'a | Panic string

section \<open>Formatting\<close>

text \<open>The verb \<^verbatim>\<open>%d\<close> of \<^verbatim>\<open>fmt.Sprintf\<close> on an integer: decimal digits, a minus sign first.\<close>

definition digit :: "nat \<Rightarrow> char" where
  "digit d = ''0123456789'' ! d"

function decimal :: "nat \<Rightarrow> string" where
  "decimal n = (if n < 10 then [digit n] else decimal (n div 10) @ [digit (n mod 10)])"
  by pat_completeness auto
termination
  by (relation "measure id") auto

declare decimal.simps [simp del]

definition fmt_d :: "int \<Rightarrow> string" where
  "fmt_d i = (if i < 0 then CHR ''-'' # decimal (nat (- i)) else decimal (nat i))"

section \<open>The source\<close>

subsection \<open>loadRepository\<close>

definition loadRepository :: "github \<Rightarrow> PullRequest \<Rightarrow> event list \<Rightarrow> PullRequest \<times> event list" where
  "loadRepository w pr tr =
     (let tr1 = tr @ [Call_Repositories_Get (RepoOwner pr) (RepoName pr)] in
      case Repositories_Get w (RepoOwner pr) (RepoName pr) of
        Inl err \<Rightarrow> (pr, tr1 @ [Logrus_Error err])
      | Inr ghRepo \<Rightarrow> (pr\<lparr>Repository := Some (NewRepository w ghRepo)\<rparr>, tr1))"

text \<open>
  Modelled from the spec: \<^verbatim>\<open>PullRequest.GetRepository\<close> is not in the source file. The spec
  gives the pull request a lazily-resolved reference to its repository: an absent
  reference is resolved through \<^verbatim>\<open>loadRepository\<close>, and the reference is returned as it
  is afterwards.
\<close>

definition GetRepository ::
  "github \<Rightarrow> PullRequest \<Rightarrow> event list \<Rightarrow> Repository option \<times> PullRequest \<times> event list" where
  "GetRepository w pr tr =
     (if Repository pr = None
      then (let (pr', tr') = loadRepository w pr tr in (Repository pr', pr', tr'))
      else (Repository pr, pr, tr))"

subsection \<open>getMergeMode\<close>

text \<open>
  The two values of the source are returned as a pair, the mode being the empty string
  beside an error. Indexing the empty slice at \<^verbatim>\<open>len(commits)-1\<close> panics, and so does a
  method call through a nil repository.
\<close>

definition getMergeMode ::
  "github \<Rightarrow> PullRequest \<Rightarrow> Commit list \<Rightarrow> event list
     \<Rightarrow> (string \<times> error option) outcome \<times> PullRequest \<times> event list" where
  "getMergeMode w pr commits tr =
     (case GetRepository w pr tr of
        (None, pr1, tr1) \<Rightarrow>
          (Returned ([], Some (New ''unable to get merge mode, pull request has no repo'')),
           pr1, tr1)
      | (Some _, pr1, tr1) \<Rightarrow>
          (case GetRepository w pr1 tr1 of
             (None, pr2, tr2) \<Rightarrow>
               (Panic ''runtime error: invalid memory address or nil pointer dereference'',
                pr2, tr2)
           | (Some repo, pr2, tr2) \<Rightarrow>
               (let tr3 = tr2 @ [Call_Repository_GetCommit repo (MergeCommitSHA pr2)] in
                case Repository_GetCommit w repo (MergeCommitSHA pr2) of
                  Inl err \<Rightarrow>
                    (Returned ([], Some (Wrap err (''querying GitHub for merge commit ''
                                                     @ MergeCommitSHA pr2))),
                     pr2, tr3)
                | Inr None \<Rightarrow>
                    (Returned ([], Some (New (''commit returned empty when querying sha ''
                                                @ MergeCommitSHA pr2))),
                     pr2, tr3)
                | Inr (Some mergeCommit) \<Rightarrow>
                    (if length (Parents mergeCommit) > 1
                     then (Returned (MERGE, None), pr2,
                           tr3 @ [Logrus_Info (''PR #'' @ fmt_d (Number pr2)
                                    @ '' merged via a merge commit'')])
                     else if length commits = 1
                     then (Returned (SQUASH, None), pr2,
                           tr3 @ [Logrus_Info (''Considering PR #'' @ fmt_d (Number pr2)
                                    @ '' as squash as it only has one commit'')])
                     else if commits = []
                     then (Panic ''runtime error: index out of range [-1]'', pr2, tr3)
                     else
                       (let mergeTree = TreeSHA mergeCommit;
                            prTree = TreeSHA (commits ! (length commits - 1));
                            tr4 = tr3 @ [Logrus_Info (''Merge tree: '' @ mergeTree
                                           @ '' - PR tree: '' @ prTree)]
                        in if mergeTree = prTree
                           then (Returned (REBASE, None), pr2,
                                 tr4 @ [Logrus_Info (''PR #'' @ fmt_d (Number pr2)
                                          @ '' was merged via rebase'')])
                           else (Returned (SQUASH, None), pr2,
                                 tr4 @ [Logrus_Info (''PR #'' @ fmt_d (Number pr2)
                                          @ '' was merged via squash'')]))))))"

subsection \<open>getCommits\<close>

text \<open>
  One call of \<^verbatim>\<open>ListCommits\<close> with the zero list options; the response beside the page is
  dropped. The loop appends the converted commits one by one. The nil slice returned
  beside an error is the empty list.
\<close>

definition getCommits ::
  "github \<Rightarrow> PullRequest \<Rightarrow> event list \<Rightarrow> (Commit list \<times> error option) \<times> event list" where
  "getCommits w pr tr =
     (let tr1 = tr @ [Call_PullRequests_ListCommits (RepoOwner pr) (RepoName pr) (Number pr)
                        ListOptions_zero] in
      case PullRequests_ListCommits w (RepoOwner pr) (RepoName pr) (Number pr)
             ListOptions_zero of
        Inl err \<Rightarrow>
          (([], Some (Wrap err (''querying GitHub for commits in PR '' @ fmt_d (Number pr)))),
           tr1)
      | Inr (commitList, resp) \<Rightarrow>
          (let list = foldl (\<lambda>list ghCommit. list @ [NewCommit w (gh_Commit ghCommit)])
                        [] commitList
           in ((list, None),
               tr1 @ [Logrus_Info (''Read '' @ fmt_d (int (length commitList))
                        @ '' commits from PR '' @ fmt_d (Number pr))])))"

subsection \<open>findPatchTree\<close>

text \<open>
  The loop over the parents of the merge commit, from parent number \<open>pn\<close> on. It returns
  the values of the \<^verbatim>\<open>return\<close> statement it reaches, or \<open>None\<close> when it falls through.
\<close>

fun scanParents ::
  "github \<Rightarrow> PullRequest \<Rightarrow> string \<Rightarrow> int \<Rightarrow> Commit list \<Rightarrow> event list
     \<Rightarrow> (int \<times> error option) option \<times> event list" where
  "scanParents w pr prSHA pn [] tr = (None, tr)"
| "scanParents w pr prSHA pn (parent # rest) tr =
     (let tr1 = tr @ [Call_Repositories_GetCommit (RepoOwner pr) (RepoName pr) (SHA parent)
                        ListOptions_zero] in
      case Repositories_GetCommit w (RepoOwner pr) (RepoName pr) (SHA parent)
             ListOptions_zero of
        Inl err \<Rightarrow>
          (Some (0, Some (Wrap err (''querying GitHub for parent commit '' @ SHA parent))), tr1)
      | Inr None \<Rightarrow>
          (Some (0, Some (New (''commit returned empty when querying sha '' @ SHA parent))),
           tr1)
      | Inr (Some parentCommit) \<Rightarrow>
          (let parentTreeSHA = GetSHA (GetTree (gh_Commit parentCommit));
               tr2 = tr1 @ [Logrus_Info (''PR: '' @ prSHA @ '' - Parent: '' @ parentTreeSHA)]
           in if parentTreeSHA = prSHA
              then (Some (pn, None),
                    tr2 @ [Logrus_Info (''Cherry pick to be performed diffing the parent #''
                             @ fmt_d pn @ '' tree '')])
              else scanParents w pr prSHA (pn + 1) rest tr2))"

definition findPatchTree ::
  "github \<Rightarrow> PullRequest \<Rightarrow> event list \<Rightarrow> (int \<times> error option) \<times> event list" where
  "findPatchTree w pr tr =
     (let tr1 = tr @ [Call_PullRequest_GetCommits] in
      case PullRequest_GetCommits w pr of
        Inl err \<Rightarrow> ((0, Some (Wrap err ''getting pr commits'')), tr1)
      | Inr commits \<Rightarrow>
          if length commits = 0
          then ((0, Some (New ''unable to find patch tree, commit list is empty'')), tr1)
          else
            (let tr2 = tr1 @ [Call_Repositories_GetCommit (RepoOwner pr) (RepoName pr)
                                (MergeCommitSHA pr) ListOptions_zero] in
             case Repositories_GetCommit w (RepoOwner pr) (RepoName pr) (MergeCommitSHA pr)
                    ListOptions_zero of
               Inl err \<Rightarrow>
                 ((0, Some (Wrap err (''querying GitHub for merge commit ''
                                        @ MergeCommitSHA pr))),
                  tr2)
             | Inr None \<Rightarrow>
                 ((0, Some (New (''commit returned empty when querying sha ''
                                   @ MergeCommitSHA pr))),
                  tr2)
             | Inr (Some repoCommit) \<Rightarrow>
                 (let mergeCommit = NewCommit w (gh_Commit repoCommit);
                      prSHA = TreeSHA (commits ! (length commits - 1))
                  in case scanParents w pr prSHA 0 (Parents mergeCommit) tr2 of
                       (Some res, tr3) \<Rightarrow> (res, tr3)
                     | (None, tr3) \<Rightarrow>
                         ((0, Some (New (''unable to find patch tree of merge commit among ''
                                           @ fmt_d (int (length (Parents mergeCommit)))
                                           @ '' parents''))),
                          tr3))))"

section \<open>Notions used in the statements\<close>

text \<open>The calls among the events, without the log lines.\<close>

fun is_call :: "event \<Rightarrow> bool" where
  "is_call (Logrus_Info msg) = False"
| "is_call (Logrus_Error err) = False"
| "is_call e = True"

definition api_calls :: "event list \<Rightarrow> event list" where
  "api_calls tr = filter is_call tr"

text \<open>
  The tree hash the platform reports for a parent of the merge commit of \<open>pr\<close>, when the
  fetch of the parent succeeds with a payload.
\<close>

definition fetchedTree :: "github \<Rightarrow> PullRequest \<Rightarrow> Commit \<Rightarrow> string option" where
  "fetchedTree w pr parent =
     (case Repositories_GetCommit w (RepoOwner pr) (RepoName pr) (SHA parent)
             ListOptions_zero of
        Inl err \<Rightarrow> None
      | Inr None \<Rightarrow> None
      | Inr (Some parentCommit) \<Rightarrow> Some (GetSHA (GetTree (gh_Commit parentCommit))))"

text \<open>The call that fetches the commit \<open>sha\<close> of the repository of \<open>pr\<close>.\<close>

definition fetchOf :: "PullRequest \<Rightarrow> string \<Rightarrow> event" where
  "fetchOf pr sha =
     Call_Repositories_GetCommit (RepoOwner pr) (RepoName pr) sha ListOptions_zero"

text \<open>
  The commit list the spec requires of the listing: every page of the platform, from
  page \<open>page\<close> on and following the next-page number of each response, concatenated.
  The fuel bounds the number of pages read.
\<close>

fun allPages ::
  "nat \<Rightarrow> github \<Rightarrow> PullRequest \<Rightarrow> int \<Rightarrow> gogithub_RepositoryCommit list option" where
  "allPages 0 w pr page = None"
| "allPages (Suc fuel) w pr page =
     (case PullRequests_ListCommits w (RepoOwner pr) (RepoName pr) (Number pr)
             \<lparr>Page = page, PerPage = 0\<rparr> of
        Inl err \<Rightarrow> None
      | Inr (commitList, resp) \<Rightarrow>
          if NextPage resp = 0 then Some commitList
          else (case allPages fuel w pr (NextPage resp) of
                  None \<Rightarrow> None
                | Some rest \<Rightarrow> Some (commitList @ rest)))"

section \<open>An example platform\<close>

text \<open>
  A platform with one repository, \<open>acme/app\<close>. Listings are served in pages, thirty
  entries to a page and the first page by default, with the number of the next page in
  the response (zero after the last page).
\<close>

definition paged ::
  "gogithub_RepositoryCommit list \<Rightarrow> gogithub_ListOptions
     \<Rightarrow> gogithub_RepositoryCommit list \<times> gogithub_Response" where
  "paged cs opts =
     (let per = (if PerPage opts \<le> 0 then 30 else nat (PerPage opts));
          page = (if Page opts \<le> 0 then 1 else nat (Page opts))
      in (take per (drop ((page - 1) * per) cs),
          \<lparr>NextPage = (if page * per < length cs then int page + 1 else 0)\<rparr>))"

definition ghCommit :: "string \<Rightarrow> string \<Rightarrow> string list \<Rightarrow> gogithub_RepositoryCommit" where
  "ghCommit sha tree parents =
     MkRepositoryCommit (Some (MkGHCommit (Some sha) (Some (MkTree (Some tree)))
       (map (\<lambda>p. MkGHCommit (Some p) None []) parents)))"

fun convertCommit :: "gogithub_Commit \<Rightarrow> Commit" where
  "convertCommit (MkGHCommit sha tree parents) =
     MkCommit (case sha of None \<Rightarrow> [] | Some s \<Rightarrow> s) (GetSHA tree) (map convertCommit parents)"

definition acme_NewCommit :: "gogithub_Commit option \<Rightarrow> Commit" where
  "acme_NewCommit c = (case c of None \<Rightarrow> MkCommit [] [] [] | Some c' \<Rightarrow> convertCommit c')"

text \<open>The commits of the pull requests 7, 8 and 9 of the example; 9 has thirty-one.\<close>

definition acme_pr_commits :: "int \<Rightarrow> gogithub_RepositoryCommit list option" where
  "acme_pr_commits number =
     (if number = 7 then Some [ghCommit ''c1'' ''tw'' [], ghCommit ''c2'' ''ty'' [''c1'']]
      else if number = 8 then Some []
      else if number = 9
      then Some (map (\<lambda>i. ghCommit (''c'' @ decimal i) (''t'' @ decimal i) []) [1..<32])
      else None)"

definition acme_commit :: "string \<Rightarrow> error + gogithub_RepositoryCommit option" where
  "acme_commit sha =
     (if sha = ''m1'' then Inr (Some (ghCommit ''m1'' ''ty'' [''p0'']))
      else if sha = ''m2'' then Inr (Some (ghCommit ''m2'' ''tz'' [''p0'', ''p1'']))
      else if sha = ''m3'' then Inr (Some (ghCommit ''m3'' ''tz'' [''p0'', ''gone'', ''p1'']))
      else if sha = ''m4'' then Inr (Some (ghCommit ''m4'' ''tz'' [''void'', ''p1'']))
      else if sha = ''m5'' then Inr (Some (ghCommit ''m5'' ''tz'' [''p1'', ''p0'']))
      else if sha = ''p0'' then Inr (Some (ghCommit ''p0'' ''tx'' []))
      else if sha = ''p1'' then Inr (Some (ghCommit ''p1'' ''ty'' []))
      else if sha = ''gone'' then Inl (New ''502 Bad Gateway'')
      else Inr None)"

definition acme :: github where
  "acme =
     \<lparr>Repositories_Get = (\<lambda>owner name.
        if owner = ''acme'' \<and> name = ''app'' then Inr (Some (MkGHRepository owner name))
        else Inl (New ''404 Not Found'')),
      Repositories_GetCommit = (\<lambda>owner name sha opts. acme_commit sha),
      PullRequests_ListCommits = (\<lambda>owner name number opts.
        case acme_pr_commits number of
          None \<Rightarrow> Inl (New ''404 Not Found'')
        | Some cs \<Rightarrow> Inr (paged cs opts)),
      NewRepository = (\<lambda>r.
        case r of None \<Rightarrow> MkRepository [] [] | Some g \<Rightarrow> MkRepository (gh_Owner g) (gh_Name g)),
      NewCommit = acme_NewCommit,
      Repository_GetCommit = (\<lambda>repo sha.
        case acme_commit sha of
          Inl err \<Rightarrow> Inl err
        | Inr None \<Rightarrow> Inr None
        | Inr (Some rc) \<Rightarrow> Inr (Some (acme_NewCommit (gh_Commit rc)))),
      PullRequest_GetCommits = (\<lambda>pr.
        case acme_pr_commits (Number pr) of
          None \<Rightarrow> Inl (New ''404 Not Found'')
        | Some cs \<Rightarrow> Inr (map (\<lambda>rc. acme_NewCommit (gh_Commit rc)) cs))\<rparr>"

definition acme_pr :: "int \<Rightarrow> string \<Rightarrow> PullRequest" where
  "acme_pr number sha =
     \<lparr>RepoOwner = ''acme'', RepoName = ''app'', Number = number, MergeCommitSHA = sha,
      Repository = None\<rparr>"

section \<open>Resolving the repository\<close>

text \<open>
  Resolving the repository changes the repository reference of the pull request only, and
  a resolved reference is returned again without a call.
\<close>

lemma GetRepository_keeps:
  "GetRepository w pr tr = (r, pr1, tr1) \<Longrightarrow>
     Repository pr1 = r \<and> MergeCommitSHA pr1 = MergeCommitSHA pr \<and> Number pr1 = Number pr
     \<and> RepoOwner pr1 = RepoOwner pr \<and> RepoName pr1 = RepoName pr"
  by (auto simp: GetRepository_def loadRepository_def Let_def split: if_splits sum.splits)

lemma GetRepository_again:
  assumes "GetRepository w pr tr = (Some repo, pr1, tr1)"
  shows "GetRepository w pr1 tr1 = (Some repo, pr1, tr1)"
proof -
  from assms have "Repository pr1 = Some repo" by (simp add: GetRepository_keeps)
  then show ?thesis by (simp add: GetRepository_def)
qed

lemma getMergeMode_resolved:
  assumes "GetRepository w pr tr = (Some repo, pr1, tr1)"
      and "Repository_GetCommit w repo (MergeCommitSHA pr) = Inr (Some mergeCommit)"
  shows "getMergeMode w pr commits tr =
     (let tr3 = tr1 @ [Call_Repository_GetCommit repo (MergeCommitSHA pr)] in
      if length (Parents mergeCommit) > 1
      then (Returned (MERGE, None), pr1,
            tr3 @ [Logrus_Info (''PR #'' @ fmt_d (Number pr) @ '' merged via a merge commit'')])
      else if length commits = 1
      then (Returned (SQUASH, None), pr1,
            tr3 @ [Logrus_Info (''Considering PR #'' @ fmt_d (Number pr)
                     @ '' as squash as it only has one commit'')])
      else if commits = []
      then (Panic ''runtime error: index out of range [-1]'', pr1, tr3)
      else
        (let mergeTree = TreeSHA mergeCommit;
             prTree = TreeSHA (commits ! (length commits - 1));
             tr4 = tr3 @ [Logrus_Info (''Merge tree: '' @ mergeTree @ '' - PR tree: '' @ prTree)]
         in if mergeTree = prTree
            then (Returned (REBASE, None), pr1,
                  tr4 @ [Logrus_Info (''PR #'' @ fmt_d (Number pr) @ '' was merged via rebase'')])
            else (Returned (SQUASH, None), pr1,
                  tr4 @ [Logrus_Info (''PR #'' @ fmt_d (Number pr) @ '' was merged via squash'')])))"
proof -
  have k: "MergeCommitSHA pr1 = MergeCommitSHA pr" "Number pr1 = Number pr"
    using assms(1) by (simp_all add: GetRepository_keeps)
  have again: "GetRepository w pr1 tr1 = (Some repo, pr1, tr1)"
    using assms(1) by (rule GetRepository_again)
  show ?thesis
    unfolding getMergeMode_def
    by (simp add: assms again k Let_def)
qed

lemma acme_resolves:
  "GetRepository acme (acme_pr n sha) [] =
     (Some (MkRepository ''acme'' ''app''),
      (acme_pr n sha)\<lparr>Repository := Some (MkRepository ''acme'' ''app'')\<rparr>,
      [Call_Repositories_Get ''acme'' ''app''])"
  by (simp add: GetRepository_def loadRepository_def acme_def acme_pr_def)

lemma acme_m1:
  "Repository_GetCommit acme repo ''m1'' = Inr (Some (MkCommit ''m1'' ''ty'' [MkCommit ''p0'' [] []]))"
  by (simp add: acme_def acme_commit_def acme_NewCommit_def ghCommit_def GetSHA_def)

lemma acme_m2:
  "Repository_GetCommit acme repo ''m2'' =
     Inr (Some (MkCommit ''m2'' ''tz'' [MkCommit ''p0'' [] [], MkCommit ''p1'' [] []]))"
  by (simp add: acme_def acme_commit_def acme_NewCommit_def ghCommit_def GetSHA_def)

section \<open>The merge mode\<close>

text \<open>
  C1: with the repository resolved, the merge commit fetched and of at most one parent,
  and two or more commits in the pull request, \<^verbatim>\<open>getMergeMode\<close> returns REBASE without an
  error when the tree of the merge commit is the tree of the last commit of the pull
  request, and SQUASH without an error when the two trees differ.
\<close>

theorem getMergeMode_rebase_or_squash:
  assumes "GetRepository w pr tr = (Some repo, pr1, tr1)"
      and "Repository_GetCommit w repo (MergeCommitSHA pr) = Inr (Some mergeCommit)"
      and "length (Parents mergeCommit) \<le> 1"
      and "2 \<le> length commits"
  shows "fst (getMergeMode w pr commits tr) =
           Returned (if TreeSHA mergeCommit = TreeSHA (last commits) then REBASE else SQUASH, None)"
proof -
  from assms(4) have ne: "commits \<noteq> []" "length commits \<noteq> 1" by auto
  then have l: "commits ! (length commits - 1) = last commits"
    by (simp add: last_conv_nth)
  show ?thesis
    using assms(3) ne l
    by (simp add: getMergeMode_resolved [OF assms(1,2)] Let_def)
qed

theorem getMergeMode_rebase_or_squash_witness:
  "fst (getMergeMode acme (acme_pr 7 ''m1'') [MkCommit ''c1'' ''tw'' [], MkCommit ''c2'' ''ty'' []] [])
     = Returned (REBASE, None)
   \<and> fst (getMergeMode acme (acme_pr 7 ''m1'') [MkCommit ''c1'' ''tw'' [], MkCommit ''c2'' ''tx'' []] [])
     = Returned (SQUASH, None)"
proof -
  have sha: "MergeCommitSHA (acme_pr 7 ''m1'') = ''m1''" by (simp add: acme_pr_def)
  have f: "Repository_GetCommit acme (MkRepository ''acme'' ''app'') (MergeCommitSHA (acme_pr 7 ''m1''))
             = Inr (Some (MkCommit ''m1'' ''ty'' [MkCommit ''p0'' [] []]))"
    by (simp only: sha acme_m1)
  have p: "length (Parents (MkCommit ''m1'' ''ty'' [MkCommit ''p0'' [] []])) \<le> 1" by simp
  have a: "2 \<le> length [MkCommit ''c1'' ''tw'' [], MkCommit ''c2'' ''ty'' []]" by simp
  have b: "2 \<le> length [MkCommit ''c1'' ''tw'' [], MkCommit ''c2'' ''tx'' []]" by simp
  show ?thesis
    using getMergeMode_rebase_or_squash [OF acme_resolves f p a]
          getMergeMode_rebase_or_squash [OF acme_resolves f p b]
    by simp
qed

text \<open>
  C2: with the repository resolved and the merge commit fetched, a merge commit of two
  or more parents makes \<^verbatim>\<open>getMergeMode\<close> return MERGE without an error, whatever the
  trees are and however many commits the pull request has, none included.
\<close>

theorem getMergeMode_merge:
  assumes "GetRepository w pr tr = (Some repo, pr1, tr1)"
      and "Repository_GetCommit w repo (MergeCommitSHA pr) = Inr (Some mergeCommit)"
      and "2 \<le> length (Parents mergeCommit)"
  shows "fst (getMergeMode w pr commits tr) = Returned (MERGE, None)"
  using assms(3) by (simp add: getMergeMode_resolved [OF assms(1,2)] Let_def)

theorem getMergeMode_merge_witness:
  "fst (getMergeMode acme (acme_pr 7 ''m2'') [] []) = Returned (MERGE, None)
   \<and> fst (getMergeMode acme (acme_pr 7 ''m2'') [MkCommit ''c2'' ''tz'' []] []) = Returned (MERGE, None)"
proof -
  have sha: "MergeCommitSHA (acme_pr 7 ''m2'') = ''m2''" by (simp add: acme_pr_def)
  have f: "Repository_GetCommit acme (MkRepository ''acme'' ''app'') (MergeCommitSHA (acme_pr 7 ''m2''))
             = Inr (Some (MkCommit ''m2'' ''tz'' [MkCommit ''p0'' [] [], MkCommit ''p1'' [] []]))"
    by (simp only: sha acme_m2)
  have p: "2 \<le> length (Parents (MkCommit ''m2'' ''tz'' [MkCommit ''p0'' [] [], MkCommit ''p1'' [] []]))"
    by simp
  show ?thesis
    using getMergeMode_merge [OF acme_resolves f p] by simp
qed

text \<open>
  C3: on an empty commit list and a merge commit of one parent, \<^verbatim>\<open>getMergeMode\<close> does not
  return an error: it reads the element before the first of the empty slice and panics.
\<close>

theorem getMergeMode_empty_commits_panics:
  "fst (getMergeMode acme (acme_pr 8 ''m1'') [] [])
     = Panic ''runtime error: index out of range [-1]''"
proof -
  have sha: "MergeCommitSHA (acme_pr 8 ''m1'') = ''m1''" by (simp add: acme_pr_def)
  have f: "Repository_GetCommit acme (MkRepository ''acme'' ''app'') (MergeCommitSHA (acme_pr 8 ''m1''))
             = Inr (Some (MkCommit ''m1'' ''ty'' [MkCommit ''p0'' [] []]))"
    by (simp only: sha acme_m1)
  show ?thesis
    by (simp add: getMergeMode_resolved [OF acme_resolves f] Let_def)
qed

text \<open>The same on every platform: no parent or one, and no commit in the pull request.\<close>

lemma empty_commit_list_panics_on_every_platform:
  assumes "GetRepository w pr tr = (Some repo, pr1, tr1)"
      and "Repository_GetCommit w repo (MergeCommitSHA pr) = Inr (Some mergeCommit)"
      and "length (Parents mergeCommit) \<le> 1"
  shows "fst (getMergeMode w pr [] tr) = Panic ''runtime error: index out of range [-1]''"
  using assms(3) by (simp add: getMergeMode_resolved [OF assms(1,2)] Let_def)

text \<open>
  C4: with the repository resolved, the merge commit fetched and of at most one parent,
  and exactly one commit in the pull request, \<^verbatim>\<open>getMergeMode\<close> returns SQUASH without an
  error, whatever the two trees are; after the fetch of the merge commit it logs the one
  line of the single-commit case, and no line of the comparison of the trees.
\<close>

theorem getMergeMode_single_commit:
  assumes "GetRepository w pr tr = (Some repo, pr1, tr1)"
      and "Repository_GetCommit w repo (MergeCommitSHA pr) = Inr (Some mergeCommit)"
      and "length (Parents mergeCommit) \<le> 1"
      and "length commits = 1"
  shows "getMergeMode w pr commits tr =
           (Returned (SQUASH, None), pr1,
            tr1 @ [Call_Repository_GetCommit repo (MergeCommitSHA pr),
                   Logrus_Info (''Considering PR #'' @ fmt_d (Number pr)
                     @ '' as squash as it only has one commit'')])"
  using assms(3,4) by (simp add: getMergeMode_resolved [OF assms(1,2)] Let_def)

theorem getMergeMode_single_commit_witness:
  "getMergeMode acme (acme_pr 7 ''m1'') [MkCommit ''c2'' ''ty'' []] [] =
     (Returned (SQUASH, None),
      (acme_pr 7 ''m1'')\<lparr>Repository := Some (MkRepository ''acme'' ''app'')\<rparr>,
      [Call_Repositories_Get ''acme'' ''app'',
       Call_Repository_GetCommit (MkRepository ''acme'' ''app'') ''m1'',
       Logrus_Info ''Considering PR #7 as squash as it only has one commit''])"
proof -
  have sha: "MergeCommitSHA (acme_pr 7 ''m1'') = ''m1''" by (simp add: acme_pr_def)
  have n: "fmt_d (Number (acme_pr 7 ''m1'')) = ''7''"
    by (simp add: acme_pr_def fmt_d_def decimal.simps digit_def)
  have f: "Repository_GetCommit acme (MkRepository ''acme'' ''app'') (MergeCommitSHA (acme_pr 7 ''m1''))
             = Inr (Some (MkCommit ''m1'' ''ty'' [MkCommit ''p0'' [] []]))"
    by (simp only: sha acme_m1)
  have p: "length (Parents (MkCommit ''m1'' ''ty'' [MkCommit ''p0'' [] []])) \<le> 1" by simp
  have a: "length [MkCommit ''c2'' ''ty'' []] = 1" by simp
  show ?thesis
    using getMergeMode_single_commit [OF acme_resolves f p a] by (simp add: sha n)
qed

text \<open>
  C8: when the repository of the pull request is absent after the attempt to resolve it,
  \<^verbatim>\<open>getMergeMode\<close> returns the empty mode and an error, and does nothing after the
  attempt: the pull request and the events are those the attempt left, and the one call
  issued is the lookup of the repository.
\<close>

theorem getMergeMode_no_repository:
  assumes "fst (GetRepository w pr tr) = None"
  shows "fst (getMergeMode w pr commits tr) =
           Returned ([], Some (New ''unable to get merge mode, pull request has no repo''))
         \<and> snd (getMergeMode w pr commits tr) = snd (GetRepository w pr tr)
         \<and> api_calls (snd (snd (getMergeMode w pr commits tr))) =
             api_calls tr @ [Call_Repositories_Get (RepoOwner pr) (RepoName pr)]"
proof -
  obtain pr1 tr1 where g: "GetRepository w pr tr = (None, pr1, tr1)"
    using assms by (cases "GetRepository w pr tr") auto
  have m: "getMergeMode w pr commits tr =
        (Returned ([], Some (New ''unable to get merge mode, pull request has no repo'')), pr1, tr1)"
    by (simp add: getMergeMode_def g)
  have "api_calls tr1 = api_calls tr @ [Call_Repositories_Get (RepoOwner pr) (RepoName pr)]"
    using g
    by (auto simp: GetRepository_def loadRepository_def Let_def api_calls_def
             split: if_splits sum.splits)
  then show ?thesis by (simp add: m g)
qed

theorem getMergeMode_no_repository_witness:
  "fst (GetRepository acme (acme_pr 7 ''m1'' \<lparr>RepoOwner := ''nobody''\<rparr>) []) = None
   \<and> getMergeMode acme (acme_pr 7 ''m1'' \<lparr>RepoOwner := ''nobody''\<rparr>) [MkCommit ''c2'' ''ty'' []] [] =
       (Returned ([], Some (New ''unable to get merge mode, pull request has no repo'')),
        acme_pr 7 ''m1'' \<lparr>RepoOwner := ''nobody''\<rparr>,
        [Call_Repositories_Get ''nobody'' ''app'', Logrus_Error (New ''404 Not Found'')])"
proof -
  have g: "GetRepository acme (acme_pr 7 ''m1'' \<lparr>RepoOwner := ''nobody''\<rparr>) [] =
      (None, acme_pr 7 ''m1'' \<lparr>RepoOwner := ''nobody''\<rparr>,
       [Call_Repositories_Get ''nobody'' ''app'', Logrus_Error (New ''404 Not Found'')])"
    by (simp add: GetRepository_def loadRepository_def acme_def acme_pr_def)
  then have h: "fst (GetRepository acme (acme_pr 7 ''m1'' \<lparr>RepoOwner := ''nobody''\<rparr>) []) = None"
    by simp
  show ?thesis
    using getMergeMode_no_repository [OF h, of "[MkCommit ''c2'' ''ty'' []]"] g
    by (simp add: prod_eq_iff)
qed

section \<open>The scan of the parents\<close>

text \<open>The calls of a trace, event by event.\<close>

lemma api_calls_append [simp]: "api_calls (xs @ ys) = api_calls xs @ api_calls ys"
  by (simp add: api_calls_def)

lemma api_calls_Nil [simp]: "api_calls [] = []"
  by (simp add: api_calls_def)

lemma api_calls_Cons [simp]:
  "api_calls (e # es) = (if is_call e then e # api_calls es else api_calls es)"
  by (simp add: api_calls_def)

lemma is_call_fetchOf [simp]: "is_call (fetchOf pr sha)"
  by (simp add: fetchOf_def)

text \<open>
  One turn of the loop, by what the fetch of the parent gives; then the loop over a prefix
  of parents that are all fetched and do not match, which leaves the rest of the list to
  scan from the next parent number on.
\<close>

lemma scan_head_match:
  assumes "fetchedTree w pr p = Some t"
  shows "fst (scanParents w pr t pn (p # rest) tr) = Some (pn, None)
         \<and> api_calls (snd (scanParents w pr t pn (p # rest) tr))
             = api_calls tr @ [fetchOf pr (SHA p)]"
  using assms
  by (auto simp: fetchedTree_def Let_def fetchOf_def [symmetric] split: sum.splits option.splits)

lemma scan_head_fail:
  assumes "fetchedTree w pr p = None"
  shows "scanParents w pr t pn (p # rest) tr =
           (Some (0, Some (case Repositories_GetCommit w (RepoOwner pr) (RepoName pr) (SHA p)
                                  ListOptions_zero of
                             Inl err \<Rightarrow> Wrap err (''querying GitHub for parent commit '' @ SHA p)
                           | Inr rc \<Rightarrow> New (''commit returned empty when querying sha '' @ SHA p))),
            tr @ [fetchOf pr (SHA p)])"
  using assms
  by (auto simp: fetchedTree_def Let_def fetchOf_def split: sum.splits option.splits)

lemma scan_head_skip:
  assumes "fetchedTree w pr p = Some t'" and "t' \<noteq> t"
  shows "scanParents w pr t pn (p # rest) tr =
           scanParents w pr t (pn + 1) rest
             (tr @ [fetchOf pr (SHA p), Logrus_Info (''PR: '' @ t @ '' - Parent: '' @ t')])"
  using assms
  by (auto simp: fetchedTree_def Let_def fetchOf_def split: sum.splits option.splits)

lemma scan_prefix:
  assumes "\<forall>p\<in>set pre. \<exists>t'. fetchedTree w pr p = Some t' \<and> t' \<noteq> t"
  shows "\<exists>tr'. scanParents w pr t pn (pre @ rest) tr
                 = scanParents w pr t (pn + int (length pre)) rest tr'
               \<and> api_calls tr' = api_calls tr @ map (\<lambda>p. fetchOf pr (SHA p)) pre"
  using assms
proof (induction pre arbitrary: pn tr)
  case Nil
  show ?case by (rule exI [of _ tr]) simp
next
  case (Cons p pre)
  then obtain t' where t': "fetchedTree w pr p = Some t'" "t' \<noteq> t" by auto
  let ?tr1 = "tr @ [fetchOf pr (SHA p), Logrus_Info (''PR: '' @ t @ '' - Parent: '' @ t')]"
  have step: "scanParents w pr t pn ((p # pre) @ rest) tr
                = scanParents w pr t (pn + 1) (pre @ rest) ?tr1"
    using scan_head_skip [OF t'] by simp
  from Cons.prems have "\<forall>p\<in>set pre. \<exists>t'. fetchedTree w pr p = Some t' \<and> t' \<noteq> t" by simp
  from Cons.IH [OF this, of "pn + 1" ?tr1]
  obtain tr' where tr': "scanParents w pr t (pn + 1) (pre @ rest) ?tr1
                           = scanParents w pr t (pn + 1 + int (length pre)) rest tr'"
      "api_calls tr' = api_calls ?tr1 @ map (\<lambda>p. fetchOf pr (SHA p)) pre"
    by blast
  have c: "api_calls ?tr1 = api_calls tr @ [fetchOf pr (SHA p)]"
    by simp
  have n: "pn + 1 + int (length pre) = pn + int (length (p # pre))" by simp
  have e: "scanParents w pr t pn ((p # pre) @ rest) tr
             = scanParents w pr t (pn + int (length (p # pre))) rest tr'"
    by (simp only: step tr'(1) n)
  have "api_calls tr' = api_calls tr @ map (\<lambda>p. fetchOf pr (SHA p)) (p # pre)"
    using tr'(2) c by simp
  with e show ?case by blast
qed

lemma prefix_of_index:
  assumes "k < length ps" and "\<forall>j<k. P (ps ! j)"
  shows "\<forall>p\<in>set (take k ps). P p"
  using assms by (auto simp: in_set_conv_nth)

lemma scan_found_app:
  assumes "\<forall>q\<in>set pre. \<exists>t'. fetchedTree w pr q = Some t' \<and> t' \<noteq> t"
      and "fetchedTree w pr p = Some t"
  shows "fst (scanParents w pr t pn (pre @ p # post) tr) = Some (pn + int (length pre), None)
         \<and> api_calls (snd (scanParents w pr t pn (pre @ p # post) tr))
             = api_calls tr @ map (\<lambda>q. fetchOf pr (SHA q)) (pre @ [p])"
proof -
  obtain tr' where tr':
      "scanParents w pr t pn (pre @ p # post) tr
         = scanParents w pr t (pn + int (length pre)) (p # post) tr'"
      "api_calls tr' = api_calls tr @ map (\<lambda>q. fetchOf pr (SHA q)) pre"
    using scan_prefix [OF assms(1)] by blast
  show ?thesis
    using scan_head_match [OF assms(2), of "pn + int (length pre)" post tr'] tr'(2)
    by (simp only: tr'(1)) simp
qed

lemma scan_failed_app:
  assumes "\<forall>q\<in>set pre. \<exists>t'. fetchedTree w pr q = Some t' \<and> t' \<noteq> t"
      and "fetchedTree w pr p = None"
  shows "fst (scanParents w pr t pn (pre @ p # post) tr) =
           Some (0, Some (case Repositories_GetCommit w (RepoOwner pr) (RepoName pr)
                                  (SHA p) ListOptions_zero of
                             Inl err \<Rightarrow> Wrap err (''querying GitHub for parent commit '' @ SHA p)
                           | Inr rc \<Rightarrow> New (''commit returned empty when querying sha '' @ SHA p)))
         \<and> api_calls (snd (scanParents w pr t pn (pre @ p # post) tr))
             = api_calls tr @ map (\<lambda>q. fetchOf pr (SHA q)) (pre @ [p])"
proof -
  obtain tr' where tr':
      "scanParents w pr t pn (pre @ p # post) tr
         = scanParents w pr t (pn + int (length pre)) (p # post) tr'"
      "api_calls tr' = api_calls tr @ map (\<lambda>q. fetchOf pr (SHA q)) pre"
    using scan_prefix [OF assms(1)] by blast
  show ?thesis
    using tr'(2)
    by (simp only: tr'(1) scan_head_fail [OF assms(2)]) simp
qed

lemma split_at_index:
  assumes "k < length ps"
  shows "ps = take k ps @ (ps ! k) # drop (Suc k) ps"
    and "take (Suc k) ps = take k ps @ [ps ! k]"
    and "length (take k ps) = k"
  using assms by (simp_all add: id_take_nth_drop take_Suc_conv_app_nth)

lemma scan_found:
  assumes "i < length ps" and "fetchedTree w pr (ps ! i) = Some t"
      and "\<forall>j<i. \<exists>t'. fetchedTree w pr (ps ! j) = Some t' \<and> t' \<noteq> t"
  shows "fst (scanParents w pr t pn ps tr) = Some (pn + int i, None)
         \<and> api_calls (snd (scanParents w pr t pn ps tr))
             = api_calls tr @ map (\<lambda>p. fetchOf pr (SHA p)) (take (Suc i) ps)"
proof -
  have pre: "\<forall>p\<in>set (take i ps). \<exists>t'. fetchedTree w pr p = Some t' \<and> t' \<noteq> t"
    using prefix_of_index [OF assms(1), of "\<lambda>p. \<exists>t'. fetchedTree w pr p = Some t' \<and> t' \<noteq> t"] assms(3)
    by blast
  have "fst (scanParents w pr t pn (take i ps @ (ps ! i) # drop (Suc i) ps) tr)
          = Some (pn + int (length (take i ps)), None)
        \<and> api_calls (snd (scanParents w pr t pn (take i ps @ (ps ! i) # drop (Suc i) ps) tr))
          = api_calls tr @ map (\<lambda>q. fetchOf pr (SHA q)) (take i ps @ [ps ! i])"
    by (rule scan_found_app [OF pre assms(2)])
  then show ?thesis
    by (simp only: split_at_index(1) [OF assms(1), symmetric]
          split_at_index(2) [OF assms(1), symmetric] split_at_index(3) [OF assms(1)])
qed

lemma scan_failed:
  assumes "k < length ps" and "fetchedTree w pr (ps ! k) = None"
      and "\<forall>j<k. \<exists>t'. fetchedTree w pr (ps ! j) = Some t' \<and> t' \<noteq> t"
  shows "fst (scanParents w pr t pn ps tr) =
           Some (0, Some (case Repositories_GetCommit w (RepoOwner pr) (RepoName pr)
                                  (SHA (ps ! k)) ListOptions_zero of
                             Inl err \<Rightarrow> Wrap err (''querying GitHub for parent commit '' @ SHA (ps ! k))
                           | Inr rc \<Rightarrow> New (''commit returned empty when querying sha '' @ SHA (ps ! k))))
         \<and> api_calls (snd (scanParents w pr t pn ps tr))
             = api_calls tr @ map (\<lambda>p. fetchOf pr (SHA p)) (take (Suc k) ps)"
proof -
  have pre: "\<forall>p\<in>set (take k ps). \<exists>t'. fetchedTree w pr p = Some t' \<and> t' \<noteq> t"
    using prefix_of_index [OF assms(1), of "\<lambda>p. \<exists>t'. fetchedTree w pr p = Some t' \<and> t' \<noteq> t"] assms(3)
    by blast
  have "fst (scanParents w pr t pn (take k ps @ (ps ! k) # drop (Suc k) ps) tr) =
           Some (0, Some (case Repositories_GetCommit w (RepoOwner pr) (RepoName pr)
                                  (SHA (ps ! k)) ListOptions_zero of
                             Inl err \<Rightarrow> Wrap err (''querying GitHub for parent commit '' @ SHA (ps ! k))
                           | Inr rc \<Rightarrow> New (''commit returned empty when querying sha '' @ SHA (ps ! k))))
        \<and> api_calls (snd (scanParents w pr t pn (take k ps @ (ps ! k) # drop (Suc k) ps) tr))
          = api_calls tr @ map (\<lambda>q. fetchOf pr (SHA q)) (take k ps @ [ps ! k])"
    by (rule scan_failed_app [OF pre assms(2)])
  then show ?thesis
    by (simp only: split_at_index(1) [OF assms(1), symmetric]
          split_at_index(2) [OF assms(1), symmetric])
qed

lemma scan_exhausted:
  assumes "\<forall>p\<in>set ps. \<exists>t'. fetchedTree w pr p = Some t' \<and> t' \<noteq> t"
  shows "fst (scanParents w pr t pn ps tr) = None
         \<and> api_calls (snd (scanParents w pr t pn ps tr))
             = api_calls tr @ map (\<lambda>p. fetchOf pr (SHA p)) ps"
  using scan_prefix [OF assms, of pn "[]" tr] by auto

lemma scan_error_index:
  "fst (scanParents w pr t pn ps tr) = Some (n, Some e) \<Longrightarrow> n = 0"
  by (induction ps arbitrary: pn tr) (auto simp: Let_def split: sum.splits option.splits if_splits)

lemma findPatchTree_scan:
  assumes "PullRequest_GetCommits w pr = Inr commits" and "commits \<noteq> []"
      and "Repositories_GetCommit w (RepoOwner pr) (RepoName pr) (MergeCommitSHA pr)
             ListOptions_zero = Inr (Some repoCommit)"
  shows "findPatchTree w pr tr =
     (case scanParents w pr (TreeSHA (last commits)) 0 (Parents (NewCommit w (gh_Commit repoCommit)))
             (tr @ [Call_PullRequest_GetCommits, fetchOf pr (MergeCommitSHA pr)]) of
        (Some res, tr3) \<Rightarrow> (res, tr3)
      | (None, tr3) \<Rightarrow>
          ((0, Some (New (''unable to find patch tree of merge commit among ''
                            @ fmt_d (int (length (Parents (NewCommit w (gh_Commit repoCommit)))))
                            @ '' parents''))),
           tr3))"
  using assms by (simp add: findPatchTree_def Let_def fetchOf_def last_conv_nth)


lemma findPatchTree_result:
  assumes "PullRequest_GetCommits w pr = Inr commits" and "commits \<noteq> []"
      and "Repositories_GetCommit w (RepoOwner pr) (RepoName pr) (MergeCommitSHA pr)
             ListOptions_zero = Inr (Some repoCommit)"
      and "parents = Parents (NewCommit w (gh_Commit repoCommit))"
      and "scan = scanParents w pr (TreeSHA (last commits)) 0 parents
                    (tr @ [Call_PullRequest_GetCommits, fetchOf pr (MergeCommitSHA pr)])"
  shows "fst (findPatchTree w pr tr) =
           (case fst scan of
              Some res \<Rightarrow> res
            | None \<Rightarrow> (0, Some (New (''unable to find patch tree of merge commit among ''
                                       @ fmt_d (int (length parents)) @ '' parents''))))"
    and "snd (findPatchTree w pr tr) = snd scan"
  by (simp_all add: findPatchTree_scan [OF assms(1,2,3)] assms(4,5) split: prod.splits option.splits)

text \<open>The example platform, evaluated.\<close>

lemma acme_commits_7:
  "PullRequest_GetCommits acme (acme_pr 7 sha) =
     Inr [MkCommit ''c1'' ''tw'' [], MkCommit ''c2'' ''ty'' [MkCommit ''c1'' [] []]]"
  by (simp add: acme_def acme_pr_def acme_pr_commits_def acme_NewCommit_def ghCommit_def
        GetSHA_def)

lemma acme_fetch:
  "Repositories_GetCommit acme (RepoOwner (acme_pr n m)) (RepoName (acme_pr n m)) sha
     ListOptions_zero = acme_commit sha"
  by (simp add: acme_def)

lemma acme_parents:
  "Parents (NewCommit acme (gh_Commit (ghCommit sha tree ps))) = map (\<lambda>p. MkCommit p [] []) ps"
  by (simp add: acme_def acme_NewCommit_def ghCommit_def GetSHA_def comp_def)

lemma acme_fetchedTree:
  "fetchedTree acme (acme_pr n m) (MkCommit ''p0'' [] []) = Some ''tx''"
  "fetchedTree acme (acme_pr n m) (MkCommit ''p1'' [] []) = Some ''ty''"
  "fetchedTree acme (acme_pr n m) (MkCommit ''gone'' [] []) = None"
  "fetchedTree acme (acme_pr n m) (MkCommit ''void'' [] []) = None"
  by (simp_all add: fetchedTree_def acme_fetch acme_commit_def ghCommit_def GetSHA_def GetTree_def)

lemma fmt_d_small: "fmt_d 1 = ''1''" "fmt_d 7 = ''7''"
  by (simp_all add: fmt_d_def decimal.simps digit_def)

lemma acme_commits_8: "PullRequest_GetCommits acme (acme_pr 8 sha) = Inr []"
  by (simp add: acme_def acme_pr_def acme_pr_commits_def)

section \<open>The patch tree\<close>

text \<open>
  C5: when the commit list of the pull request is not empty, the merge commit is fetched
  and every fetch of a parent succeeds, \<^verbatim>\<open>findPatchTree\<close> returns the lowest number of a
  parent whose tree is the tree of the last commit of the pull request, without an error,
  if there is such a parent; if there is none, it returns an error whose message gives the
  number of parents of the merge commit.
\<close>

theorem findPatchTree_lowest_match:
  assumes gc: "PullRequest_GetCommits w pr = Inr commits" and ne: "commits \<noteq> []"
      and mc: "Repositories_GetCommit w (RepoOwner pr) (RepoName pr) (MergeCommitSHA pr)
                 ListOptions_zero = Inr (Some repoCommit)"
      and ps: "parents = Parents (NewCommit w (gh_Commit repoCommit))"
      and ok: "\<forall>p\<in>set parents. fetchedTree w pr p \<noteq> None"
  shows "fst (findPatchTree w pr tr) =
     (if \<exists>i<length parents. fetchedTree w pr (parents ! i) = Some (TreeSHA (last commits))
      then (int (LEAST i. i < length parents
                    \<and> fetchedTree w pr (parents ! i) = Some (TreeSHA (last commits))), None)
      else (0, Some (New (''unable to find patch tree of merge commit among ''
                            @ fmt_d (int (length parents)) @ '' parents''))))"
proof -
  define t where "t = TreeSHA (last commits)"
  define tr2 where "tr2 = tr @ [Call_PullRequest_GetCommits, fetchOf pr (MergeCommitSHA pr)]"
  define scan where "scan = scanParents w pr (TreeSHA (last commits)) 0 parents
                    (tr @ [Call_PullRequest_GetCommits, fetchOf pr (MergeCommitSHA pr)])"
  note res = findPatchTree_result(1) [OF gc ne mc ps scan_def]
  show ?thesis
  proof (cases "\<exists>i<length parents. fetchedTree w pr (parents ! i) = Some t")
    case True
    define i where "i = (LEAST i. i < length parents \<and> fetchedTree w pr (parents ! i) = Some t)"
    from True have ex: "\<exists>i. i < length parents \<and> fetchedTree w pr (parents ! i) = Some t"
      by blast
    have i: "i < length parents" "fetchedTree w pr (parents ! i) = Some t"
      using LeastI_ex [OF ex] by (simp_all add: i_def)
    have before: "\<forall>j<i. \<exists>t'. fetchedTree w pr (parents ! j) = Some t' \<and> t' \<noteq> t"
    proof (intro allI impI)
      fix j assume j: "j < i"
      then have jl: "j < length parents" using i(1) by simp
      then have "fetchedTree w pr (parents ! j) \<noteq> None" using ok by simp
      then obtain t' where t': "fetchedTree w pr (parents ! j) = Some t'" by blast
      have "\<not> (j < length parents \<and> fetchedTree w pr (parents ! j) = Some t)"
        using j not_less_Least [of j "\<lambda>i. i < length parents \<and> fetchedTree w pr (parents ! i) = Some t"]
        by (simp add: i_def)
      with jl t' have "t' \<noteq> t" by auto
      with t' show "\<exists>t'. fetchedTree w pr (parents ! j) = Some t' \<and> t' \<noteq> t" by blast
    qed
    have "fst scan = Some (int i, None)"
      using scan_found [OF i before, of 0 tr2] by (simp add: scan_def t_def tr2_def)
    then show ?thesis
      using True by (simp add: res i_def t_def)
  next
    case False
    have "\<forall>p\<in>set parents. \<exists>t'. fetchedTree w pr p = Some t' \<and> t' \<noteq> t"
    proof
      fix p assume p: "p \<in> set parents"
      then have "fetchedTree w pr p \<noteq> None" using ok by simp
      then obtain t' where t': "fetchedTree w pr p = Some t'" by blast
      from p obtain j where "j < length parents" "parents ! j = p"
        by (auto simp: in_set_conv_nth)
      with False t' have "t' \<noteq> t" by auto
      with t' show "\<exists>t'. fetchedTree w pr p = Some t' \<and> t' \<noteq> t" by blast
    qed
    then have "fst scan = None"
      using scan_exhausted [of parents w pr t 0 tr2] by (simp add: scan_def t_def tr2_def)
    then show ?thesis
      using False by (simp add: res t_def)
  qed
qed

theorem findPatchTree_lowest_match_witness:
  "fst (findPatchTree acme (acme_pr 7 ''m2'') []) = (1, None)
   \<and> fst (findPatchTree acme (acme_pr 7 ''m1'') []) =
       (0, Some (New ''unable to find patch tree of merge commit among 1 parents''))"
proof -
  let ?cs = "[MkCommit ''c1'' ''tw'' [], MkCommit ''c2'' ''ty'' [MkCommit ''c1'' [] []]]"
  let ?p0 = "MkCommit ''p0'' [] []" and ?p1 = "MkCommit ''p1'' [] []"
  have ne: "?cs \<noteq> []" by simp
  have m2: "Repositories_GetCommit acme (RepoOwner (acme_pr 7 ''m2'')) (RepoName (acme_pr 7 ''m2''))
              (MergeCommitSHA (acme_pr 7 ''m2'')) ListOptions_zero
              = Inr (Some (ghCommit ''m2'' ''tz'' [''p0'', ''p1'']))"
    by (simp add: acme_fetch) (simp add: acme_pr_def acme_commit_def)
  have m1: "Repositories_GetCommit acme (RepoOwner (acme_pr 7 ''m1'')) (RepoName (acme_pr 7 ''m1''))
              (MergeCommitSHA (acme_pr 7 ''m1'')) ListOptions_zero
              = Inr (Some (ghCommit ''m1'' ''ty'' [''p0'']))"
    by (simp add: acme_fetch) (simp add: acme_pr_def acme_commit_def)
  have ps2: "[?p0, ?p1] = Parents (NewCommit acme (gh_Commit (ghCommit ''m2'' ''tz'' [''p0'', ''p1''])))"
    by (simp add: acme_parents)
  have ps1: "[?p0] = Parents (NewCommit acme (gh_Commit (ghCommit ''m1'' ''ty'' [''p0''])))"
    by (simp add: acme_parents)
  have ok2: "\<forall>p\<in>set [?p0, ?p1]. fetchedTree acme (acme_pr 7 ''m2'') p \<noteq> None"
    by (simp add: acme_fetchedTree)
  have ok1: "\<forall>p\<in>set [?p0]. fetchedTree acme (acme_pr 7 ''m1'') p \<noteq> None"
    by (simp add: acme_fetchedTree)
  have least: "(LEAST i. i < length [?p0, ?p1]
                  \<and> fetchedTree acme (acme_pr 7 ''m2'') ([?p0, ?p1] ! i) = Some ''ty'') = 1"
    by (rule Least_equality) (auto simp: acme_fetchedTree less_Suc_eq nth_Cons')
  have ex2: "\<exists>i<length [?p0, ?p1]. fetchedTree acme (acme_pr 7 ''m2'') ([?p0, ?p1] ! i) = Some ''ty''"
    by (rule exI [of _ 1]) (simp add: acme_fetchedTree)
  have ex1: "\<not> (\<exists>i<length [?p0]. fetchedTree acme (acme_pr 7 ''m1'') ([?p0] ! i) = Some ''ty'')"
    by (simp add: acme_fetchedTree)
  have a: "fst (findPatchTree acme (acme_pr 7 ''m2'') []) = (1, None)"
    using findPatchTree_lowest_match [OF acme_commits_7 ne m2 ps2 ok2, of "[]"] ex2 least
    by simp
  have b: "fst (findPatchTree acme (acme_pr 7 ''m1'') []) =
       (0, Some (New ''unable to find patch tree of merge commit among 1 parents''))"
    using findPatchTree_lowest_match [OF acme_commits_7 ne m1 ps1 ok1, of "[]"] ex1
    by (simp add: fmt_d_small)
  from a b show ?thesis by simp
qed

text \<open>
  C6: when the commit list of the pull request is fetched and empty, \<^verbatim>\<open>findPatchTree\<close>
  returns an error, and the listing of the commits is the only call it has issued:
  neither the merge commit nor a parent is fetched.
\<close>

theorem findPatchTree_empty_commit_list:
  assumes "PullRequest_GetCommits w pr = Inr []"
  shows "findPatchTree w pr tr =
           ((0, Some (New ''unable to find patch tree, commit list is empty'')),
            tr @ [Call_PullRequest_GetCommits])"
  using assms by (simp add: findPatchTree_def)

theorem findPatchTree_empty_commit_list_witness:
  "PullRequest_GetCommits acme (acme_pr 8 ''m2'') = Inr []
   \<and> findPatchTree acme (acme_pr 8 ''m2'') [] =
       ((0, Some (New ''unable to find patch tree, commit list is empty'')),
        [Call_PullRequest_GetCommits])"
  using findPatchTree_empty_commit_list [OF acme_commits_8, of "''m2''" "[]"] acme_commits_8
  by simp

text \<open>
  C7: when the scan reaches a parent whose fetch fails or gives no payload, the parents
  before it being fetched without a match, \<^verbatim>\<open>findPatchTree\<close> returns an error that wraps
  the cause of the failure, or names the SHA of the parent when the payload is missing;
  the fetch of that parent is the last call issued, so no later parent is fetched, and
  the number returned is no parent number of a match.
\<close>

theorem findPatchTree_parent_fetch_fails:
  assumes gc: "PullRequest_GetCommits w pr = Inr commits" and ne: "commits \<noteq> []"
      and mc: "Repositories_GetCommit w (RepoOwner pr) (RepoName pr) (MergeCommitSHA pr)
                 ListOptions_zero = Inr (Some repoCommit)"
      and ps: "parents = Parents (NewCommit w (gh_Commit repoCommit))"
      and k: "k < length parents"
      and before: "\<forall>j<k. \<exists>t'. fetchedTree w pr (parents ! j) = Some t'
                                \<and> t' \<noteq> TreeSHA (last commits)"
      and fails: "fetchedTree w pr (parents ! k) = None"
  shows "fst (findPatchTree w pr tr) =
           (0, Some (case Repositories_GetCommit w (RepoOwner pr) (RepoName pr)
                            (SHA (parents ! k)) ListOptions_zero of
                       Inl err \<Rightarrow>
                         Wrap err (''querying GitHub for parent commit '' @ SHA (parents ! k))
                     | Inr rc \<Rightarrow>
                         New (''commit returned empty when querying sha '' @ SHA (parents ! k))))
         \<and> api_calls (snd (findPatchTree w pr tr)) =
             api_calls tr @ [Call_PullRequest_GetCommits, fetchOf pr (MergeCommitSHA pr)]
               @ map (\<lambda>p. fetchOf pr (SHA p)) (take (Suc k) parents)"
proof -
  define scan where "scan = scanParents w pr (TreeSHA (last commits)) 0 parents
                    (tr @ [Call_PullRequest_GetCommits, fetchOf pr (MergeCommitSHA pr)])"
  note res = findPatchTree_result [OF gc ne mc ps scan_def]
  have s: "fst scan =
           Some (0, Some (case Repositories_GetCommit w (RepoOwner pr) (RepoName pr)
                                  (SHA (parents ! k)) ListOptions_zero of
                             Inl err \<Rightarrow> Wrap err (''querying GitHub for parent commit '' @ SHA (parents ! k))
                           | Inr rc \<Rightarrow> New (''commit returned empty when querying sha '' @ SHA (parents ! k))))
         \<and> api_calls (snd scan)
             = api_calls (tr @ [Call_PullRequest_GetCommits, fetchOf pr (MergeCommitSHA pr)])
                 @ map (\<lambda>p. fetchOf pr (SHA p)) (take (Suc k) parents)"
    unfolding scan_def by (rule scan_failed [OF k fails before])
  then show ?thesis
    by (simp add: res)
qed

theorem findPatchTree_parent_fetch_fails_witness:
  "fst (findPatchTree acme (acme_pr 7 ''m3'') []) =
     (0, Some (Wrap (New ''502 Bad Gateway'') ''querying GitHub for parent commit gone''))
   \<and> api_calls (snd (findPatchTree acme (acme_pr 7 ''m3'') [])) =
       [Call_PullRequest_GetCommits, fetchOf (acme_pr 7 ''m3'') ''m3'',
        fetchOf (acme_pr 7 ''m3'') ''p0'', fetchOf (acme_pr 7 ''m3'') ''gone'']
   \<and> fst (findPatchTree acme (acme_pr 7 ''m4'') []) =
       (0, Some (New ''commit returned empty when querying sha void''))
   \<and> api_calls (snd (findPatchTree acme (acme_pr 7 ''m4'') [])) =
       [Call_PullRequest_GetCommits, fetchOf (acme_pr 7 ''m4'') ''m4'',
        fetchOf (acme_pr 7 ''m4'') ''void'']"
proof -
  let ?cs = "[MkCommit ''c1'' ''tw'' [], MkCommit ''c2'' ''ty'' [MkCommit ''c1'' [] []]]"
  let ?p0 = "MkCommit ''p0'' [] []" and ?p1 = "MkCommit ''p1'' [] []"
  let ?gone = "MkCommit ''gone'' [] []" and ?void = "MkCommit ''void'' [] []"
  have ne: "?cs \<noteq> []" by simp
  have m3: "Repositories_GetCommit acme (RepoOwner (acme_pr 7 ''m3'')) (RepoName (acme_pr 7 ''m3''))
              (MergeCommitSHA (acme_pr 7 ''m3'')) ListOptions_zero
              = Inr (Some (ghCommit ''m3'' ''tz'' [''p0'', ''gone'', ''p1'']))"
    by (simp add: acme_fetch) (simp add: acme_pr_def acme_commit_def)
  have m4: "Repositories_GetCommit acme (RepoOwner (acme_pr 7 ''m4'')) (RepoName (acme_pr 7 ''m4''))
              (MergeCommitSHA (acme_pr 7 ''m4'')) ListOptions_zero
              = Inr (Some (ghCommit ''m4'' ''tz'' [''void'', ''p1'']))"
    by (simp add: acme_fetch) (simp add: acme_pr_def acme_commit_def)
  have ps3: "[?p0, ?gone, ?p1]
               = Parents (NewCommit acme (gh_Commit (ghCommit ''m3'' ''tz'' [''p0'', ''gone'', ''p1''])))"
    by (simp add: acme_parents)
  have ps4: "[?void, ?p1]
               = Parents (NewCommit acme (gh_Commit (ghCommit ''m4'' ''tz'' [''void'', ''p1''])))"
    by (simp add: acme_parents)
  have k3: "1 < length [?p0, ?gone, ?p1]" by simp
  have k4: "0 < length [?void, ?p1]" by simp
  have b3: "\<forall>j<1. \<exists>t'. fetchedTree acme (acme_pr 7 ''m3'') ([?p0, ?gone, ?p1] ! j) = Some t'
                        \<and> t' \<noteq> TreeSHA (last ?cs)"
    by (simp add: acme_fetchedTree)
  have b4: "\<forall>j<0. \<exists>t'. fetchedTree acme (acme_pr 7 ''m4'') ([?void, ?p1] ! j) = Some t'
                        \<and> t' \<noteq> TreeSHA (last ?cs)"
    by simp
  have f3: "fetchedTree acme (acme_pr 7 ''m3'') ([?p0, ?gone, ?p1] ! 1) = None"
    by (simp add: acme_fetchedTree)
  have f4: "fetchedTree acme (acme_pr 7 ''m4'') ([?void, ?p1] ! 0) = None"
    by (simp add: acme_fetchedTree)
  have sha: "MergeCommitSHA (acme_pr 7 ''m3'') = ''m3''" "MergeCommitSHA (acme_pr 7 ''m4'') = ''m4''"
    by (simp_all add: acme_pr_def)
  have a: "fst (findPatchTree acme (acme_pr 7 ''m3'') []) =
     (0, Some (Wrap (New ''502 Bad Gateway'') ''querying GitHub for parent commit gone''))
   \<and> api_calls (snd (findPatchTree acme (acme_pr 7 ''m3'') [])) =
       [Call_PullRequest_GetCommits, fetchOf (acme_pr 7 ''m3'') ''m3'',
        fetchOf (acme_pr 7 ''m3'') ''p0'', fetchOf (acme_pr 7 ''m3'') ''gone'']"
    using findPatchTree_parent_fetch_fails [OF acme_commits_7 ne m3 ps3 k3 b3 f3, of "[]"]
    by (simp add: acme_fetch acme_commit_def sha)
  have b: "fst (findPatchTree acme (acme_pr 7 ''m4'') []) =
       (0, Some (New ''commit returned empty when querying sha void''))
   \<and> api_calls (snd (findPatchTree acme (acme_pr 7 ''m4'') [])) =
       [Call_PullRequest_GetCommits, fetchOf (acme_pr 7 ''m4'') ''m4'',
        fetchOf (acme_pr 7 ''m4'') ''void'']"
    using findPatchTree_parent_fetch_fails [OF acme_commits_7 ne m4 ps4 k4 b4 f4, of "[]"]
    by (simp add: acme_fetch acme_commit_def sha)
  from a b show ?thesis by simp
qed

lemma acme_commits_10: "PullRequest_GetCommits acme (acme_pr 10 sha) = Inl (New ''404 Not Found'')"
  by (simp add: acme_def acme_pr_def acme_pr_commits_def)

lemma acme_merge_fetch:
  "Repositories_GetCommit acme (RepoOwner (acme_pr n sha)) (RepoName (acme_pr n sha))
     (MergeCommitSHA (acme_pr n sha)) ListOptions_zero = acme_commit sha"
  by (simp add: acme_def acme_pr_def)

text \<open>
  C10: on each failure path of \<^verbatim>\<open>findPatchTree\<close> the parent number returned is 0, beside
  the error of that path: when the listing of the commits fails, when the list is empty,
  when the fetch of the merge commit fails or gives no payload, when the scan reaches a
  parent whose fetch fails or gives no payload, and when every parent is fetched and none
  matches. No other result carries an error: an error beside the number means the number
  is 0. And 0 without an error is what a match on the first parent returns, so the error
  alone tells the two apart.
\<close>

theorem findPatchTree_failure_index:
  "(\<forall>err. PullRequest_GetCommits w pr = Inl err \<longrightarrow>
      fst (findPatchTree w pr tr) = (0, Some (Wrap err ''getting pr commits'')))
   \<and> (PullRequest_GetCommits w pr = Inr [] \<longrightarrow>
      fst (findPatchTree w pr tr) =
        (0, Some (New ''unable to find patch tree, commit list is empty'')))
   \<and> (\<forall>commits err.
        PullRequest_GetCommits w pr = Inr commits \<longrightarrow> commits \<noteq> [] \<longrightarrow>
        Repositories_GetCommit w (RepoOwner pr) (RepoName pr) (MergeCommitSHA pr)
          ListOptions_zero = Inl err \<longrightarrow>
        fst (findPatchTree w pr tr) =
          (0, Some (Wrap err (''querying GitHub for merge commit '' @ MergeCommitSHA pr))))
   \<and> (\<forall>commits.
        PullRequest_GetCommits w pr = Inr commits \<longrightarrow> commits \<noteq> [] \<longrightarrow>
        Repositories_GetCommit w (RepoOwner pr) (RepoName pr) (MergeCommitSHA pr)
          ListOptions_zero = Inr None \<longrightarrow>
        fst (findPatchTree w pr tr) =
          (0, Some (New (''commit returned empty when querying sha '' @ MergeCommitSHA pr))))
   \<and> (\<forall>commits repoCommit k.
        PullRequest_GetCommits w pr = Inr commits \<longrightarrow> commits \<noteq> [] \<longrightarrow>
        Repositories_GetCommit w (RepoOwner pr) (RepoName pr) (MergeCommitSHA pr)
          ListOptions_zero = Inr (Some repoCommit) \<longrightarrow>
        k < length (Parents (NewCommit w (gh_Commit repoCommit))) \<longrightarrow>
        (\<forall>j<k. \<exists>t'. fetchedTree w pr (Parents (NewCommit w (gh_Commit repoCommit)) ! j) = Some t'
                      \<and> t' \<noteq> TreeSHA (last commits)) \<longrightarrow>
        fetchedTree w pr (Parents (NewCommit w (gh_Commit repoCommit)) ! k) = None \<longrightarrow>
        fst (findPatchTree w pr tr) =
          (0, Some (case Repositories_GetCommit w (RepoOwner pr) (RepoName pr)
                           (SHA (Parents (NewCommit w (gh_Commit repoCommit)) ! k))
                           ListOptions_zero of
                      Inl err \<Rightarrow>
                        Wrap err (''querying GitHub for parent commit ''
                                    @ SHA (Parents (NewCommit w (gh_Commit repoCommit)) ! k))
                    | Inr rc \<Rightarrow>
                        New (''commit returned empty when querying sha ''
                               @ SHA (Parents (NewCommit w (gh_Commit repoCommit)) ! k)))))
   \<and> (\<forall>commits repoCommit.
        PullRequest_GetCommits w pr = Inr commits \<longrightarrow> commits \<noteq> [] \<longrightarrow>
        Repositories_GetCommit w (RepoOwner pr) (RepoName pr) (MergeCommitSHA pr)
          ListOptions_zero = Inr (Some repoCommit) \<longrightarrow>
        (\<forall>p\<in>set (Parents (NewCommit w (gh_Commit repoCommit))).
           \<exists>t'. fetchedTree w pr p = Some t' \<and> t' \<noteq> TreeSHA (last commits)) \<longrightarrow>
        fst (findPatchTree w pr tr) =
          (0, Some (New (''unable to find patch tree of merge commit among ''
                           @ fmt_d (int (length (Parents (NewCommit w (gh_Commit repoCommit)))))
                           @ '' parents''))))
   \<and> (snd (fst (findPatchTree w pr tr)) \<noteq> None \<longrightarrow> fst (fst (findPatchTree w pr tr)) = 0)
   \<and> (\<forall>commits repoCommit p rest.
        PullRequest_GetCommits w pr = Inr commits \<longrightarrow> commits \<noteq> [] \<longrightarrow>
        Repositories_GetCommit w (RepoOwner pr) (RepoName pr) (MergeCommitSHA pr)
          ListOptions_zero = Inr (Some repoCommit) \<longrightarrow>
        Parents (NewCommit w (gh_Commit repoCommit)) = p # rest \<longrightarrow>
        fetchedTree w pr p = Some (TreeSHA (last commits)) \<longrightarrow>
        fst (findPatchTree w pr tr) = (0, None))"
proof (intro conjI allI impI)
  fix err assume "PullRequest_GetCommits w pr = Inl err"
  then show "fst (findPatchTree w pr tr) = (0, Some (Wrap err ''getting pr commits''))"
    by (simp add: findPatchTree_def)
next
  assume "PullRequest_GetCommits w pr = Inr []"
  then show "fst (findPatchTree w pr tr) =
        (0, Some (New ''unable to find patch tree, commit list is empty''))"
    by (simp add: findPatchTree_def)
next
  fix commits err
  assume "PullRequest_GetCommits w pr = Inr commits" "commits \<noteq> []"
    "Repositories_GetCommit w (RepoOwner pr) (RepoName pr) (MergeCommitSHA pr)
       ListOptions_zero = Inl err"
  then show "fst (findPatchTree w pr tr) =
          (0, Some (Wrap err (''querying GitHub for merge commit '' @ MergeCommitSHA pr)))"
    by (simp add: findPatchTree_def Let_def)
next
  fix commits
  assume "PullRequest_GetCommits w pr = Inr commits" "commits \<noteq> []"
    "Repositories_GetCommit w (RepoOwner pr) (RepoName pr) (MergeCommitSHA pr)
       ListOptions_zero = Inr None"
  then show "fst (findPatchTree w pr tr) =
          (0, Some (New (''commit returned empty when querying sha '' @ MergeCommitSHA pr)))"
    by (simp add: findPatchTree_def Let_def)
next
  fix commits repoCommit k
  let ?ps = "Parents (NewCommit w (gh_Commit repoCommit))"
  assume gc: "PullRequest_GetCommits w pr = Inr commits" and ne: "commits \<noteq> []"
    and mc: "Repositories_GetCommit w (RepoOwner pr) (RepoName pr) (MergeCommitSHA pr)
               ListOptions_zero = Inr (Some repoCommit)"
    and k: "k < length ?ps"
    and before: "\<forall>j<k. \<exists>t'. fetchedTree w pr (?ps ! j) = Some t' \<and> t' \<noteq> TreeSHA (last commits)"
    and fails: "fetchedTree w pr (?ps ! k) = None"
  show "fst (findPatchTree w pr tr) =
          (0, Some (case Repositories_GetCommit w (RepoOwner pr) (RepoName pr)
                           (SHA (?ps ! k)) ListOptions_zero of
                      Inl err \<Rightarrow>
                        Wrap err (''querying GitHub for parent commit '' @ SHA (?ps ! k))
                    | Inr rc \<Rightarrow>
                        New (''commit returned empty when querying sha '' @ SHA (?ps ! k))))"
    using scan_failed [OF k fails before, of 0
            "tr @ [Call_PullRequest_GetCommits, fetchOf pr (MergeCommitSHA pr)]"]
    by (simp add: findPatchTree_result(1) [OF gc ne mc refl refl])
next
  fix commits repoCommit
  let ?ps = "Parents (NewCommit w (gh_Commit repoCommit))"
  assume gc: "PullRequest_GetCommits w pr = Inr commits" and ne: "commits \<noteq> []"
    and mc: "Repositories_GetCommit w (RepoOwner pr) (RepoName pr) (MergeCommitSHA pr)
               ListOptions_zero = Inr (Some repoCommit)"
    and none: "\<forall>p\<in>set ?ps. \<exists>t'. fetchedTree w pr p = Some t' \<and> t' \<noteq> TreeSHA (last commits)"
  show "fst (findPatchTree w pr tr) =
          (0, Some (New (''unable to find patch tree of merge commit among ''
                           @ fmt_d (int (length ?ps)) @ '' parents'')))"
    using scan_exhausted [OF none, of 0
            "tr @ [Call_PullRequest_GetCommits, fetchOf pr (MergeCommitSHA pr)]"]
    by (simp add: findPatchTree_result(1) [OF gc ne mc refl refl])
next
  assume e: "snd (fst (findPatchTree w pr tr)) \<noteq> None"
  show "fst (fst (findPatchTree w pr tr)) = 0"
  proof (cases "PullRequest_GetCommits w pr")
    case (Inl err)
    then show ?thesis by (simp add: findPatchTree_def)
  next
    case (Inr commits)
    show ?thesis
    proof (cases "commits = []")
      case True
      with Inr show ?thesis by (simp add: findPatchTree_def)
    next
      case ne: False
      show ?thesis
      proof (cases "Repositories_GetCommit w (RepoOwner pr) (RepoName pr) (MergeCommitSHA pr)
                      ListOptions_zero")
        case (Inl err)
        with Inr ne show ?thesis by (simp add: findPatchTree_def)
      next
        case mc: (Inr rc)
        show ?thesis
        proof (cases rc)
          case None
          with Inr ne mc show ?thesis by (simp add: findPatchTree_def)
        next
          case (Some repoCommit)
          with mc have mc': "Repositories_GetCommit w (RepoOwner pr) (RepoName pr)
              (MergeCommitSHA pr) ListOptions_zero = Inr (Some repoCommit)" by simp
          show ?thesis
            using e scan_error_index [of w pr "TreeSHA (last commits)" 0
                    "Parents (NewCommit w (gh_Commit repoCommit))"
                    "tr @ [Call_PullRequest_GetCommits, fetchOf pr (MergeCommitSHA pr)]"]
            by (auto simp: findPatchTree_result(1) [OF Inr ne mc' refl refl] split: option.splits)
        qed
      qed
    qed
  qed
next
  fix commits repoCommit p rest
  assume gc: "PullRequest_GetCommits w pr = Inr commits" and ne: "commits \<noteq> []"
    and mc: "Repositories_GetCommit w (RepoOwner pr) (RepoName pr) (MergeCommitSHA pr)
               ListOptions_zero = Inr (Some repoCommit)"
    and ps: "Parents (NewCommit w (gh_Commit repoCommit)) = p # rest"
    and m: "fetchedTree w pr p = Some (TreeSHA (last commits))"
  show "fst (findPatchTree w pr tr) = (0, None)"
    using scan_head_match [OF m, of 0 rest
            "tr @ [Call_PullRequest_GetCommits, fetchOf pr (MergeCommitSHA pr)]"]
    by (simp add: findPatchTree_result(1) [OF gc ne mc ps [symmetric] refl])
qed

theorem findPatchTree_failure_index_witness:
  "fst (findPatchTree acme (acme_pr 10 ''m1'') []) =
     (0, Some (Wrap (New ''404 Not Found'') ''getting pr commits''))
   \<and> fst (findPatchTree acme (acme_pr 8 ''m1'') []) =
     (0, Some (New ''unable to find patch tree, commit list is empty''))
   \<and> fst (findPatchTree acme (acme_pr 7 ''gone'') []) =
     (0, Some (Wrap (New ''502 Bad Gateway'') ''querying GitHub for merge commit gone''))
   \<and> fst (findPatchTree acme (acme_pr 7 ''void'') []) =
     (0, Some (New ''commit returned empty when querying sha void''))
   \<and> fst (findPatchTree acme (acme_pr 7 ''m3'') []) =
     (0, Some (Wrap (New ''502 Bad Gateway'') ''querying GitHub for parent commit gone''))
   \<and> fst (findPatchTree acme (acme_pr 7 ''m4'') []) =
     (0, Some (New ''commit returned empty when querying sha void''))
   \<and> fst (findPatchTree acme (acme_pr 7 ''m1'') []) =
     (0, Some (New ''unable to find patch tree of merge commit among 1 parents''))
   \<and> fst (fst (findPatchTree acme (acme_pr 7 ''m1'') [])) = 0
   \<and> fst (findPatchTree acme (acme_pr 7 ''m5'') []) = (0, None)"
proof -
  let ?cs = "[MkCommit ''c1'' ''tw'' [], MkCommit ''c2'' ''ty'' [MkCommit ''c1'' [] []]]"
  let ?p0 = "MkCommit ''p0'' [] []" and ?p1 = "MkCommit ''p1'' [] []"
  let ?gone = "MkCommit ''gone'' [] []" and ?void = "MkCommit ''void'' [] []"
  note T = findPatchTree_failure_index
  note path1 = T [THEN conjunct1, rule_format]
  note path2 = T [THEN conjunct2, THEN conjunct1, rule_format]
  note path3 = T [THEN conjunct2, THEN conjunct2, THEN conjunct1, rule_format]
  note path4 = T [THEN conjunct2, THEN conjunct2, THEN conjunct2, THEN conjunct1, rule_format]
  note path5 = T [THEN conjunct2, THEN conjunct2, THEN conjunct2, THEN conjunct2,
                  THEN conjunct1, rule_format]
  note path6 = T [THEN conjunct2, THEN conjunct2, THEN conjunct2, THEN conjunct2,
                  THEN conjunct2, THEN conjunct1, rule_format]
  note path7 = T [THEN conjunct2, THEN conjunct2, THEN conjunct2, THEN conjunct2,
                  THEN conjunct2, THEN conjunct2, THEN conjunct1, rule_format]
  note path8 = T [THEN conjunct2, THEN conjunct2, THEN conjunct2, THEN conjunct2,
                  THEN conjunct2, THEN conjunct2, THEN conjunct2, rule_format]
  have ne: "?cs \<noteq> []" by simp
  have last: "TreeSHA (last ?cs) = ''ty''" by simp
  have gone: "Repositories_GetCommit acme (RepoOwner (acme_pr 7 ''gone'')) (RepoName (acme_pr 7 ''gone''))
                (MergeCommitSHA (acme_pr 7 ''gone'')) ListOptions_zero = Inl (New ''502 Bad Gateway'')"
    by (simp add: acme_merge_fetch acme_commit_def)
  have void: "Repositories_GetCommit acme (RepoOwner (acme_pr 7 ''void'')) (RepoName (acme_pr 7 ''void''))
                (MergeCommitSHA (acme_pr 7 ''void'')) ListOptions_zero = Inr None"
    by (simp add: acme_merge_fetch acme_commit_def)
  have m3: "Repositories_GetCommit acme (RepoOwner (acme_pr 7 ''m3'')) (RepoName (acme_pr 7 ''m3''))
              (MergeCommitSHA (acme_pr 7 ''m3'')) ListOptions_zero
              = Inr (Some (ghCommit ''m3'' ''tz'' [''p0'', ''gone'', ''p1'']))"
    by (simp add: acme_merge_fetch acme_commit_def)
  have m4: "Repositories_GetCommit acme (RepoOwner (acme_pr 7 ''m4'')) (RepoName (acme_pr 7 ''m4''))
              (MergeCommitSHA (acme_pr 7 ''m4'')) ListOptions_zero
              = Inr (Some (ghCommit ''m4'' ''tz'' [''void'', ''p1'']))"
    by (simp add: acme_merge_fetch acme_commit_def)
  have m1: "Repositories_GetCommit acme (RepoOwner (acme_pr 7 ''m1'')) (RepoName (acme_pr 7 ''m1''))
              (MergeCommitSHA (acme_pr 7 ''m1'')) ListOptions_zero
              = Inr (Some (ghCommit ''m1'' ''ty'' [''p0'']))"
    by (simp add: acme_merge_fetch acme_commit_def)
  have m5: "Repositories_GetCommit acme (RepoOwner (acme_pr 7 ''m5'')) (RepoName (acme_pr 7 ''m5''))
              (MergeCommitSHA (acme_pr 7 ''m5'')) ListOptions_zero
              = Inr (Some (ghCommit ''m5'' ''tz'' [''p1'', ''p0'']))"
    by (simp add: acme_merge_fetch acme_commit_def)
  have sha: "MergeCommitSHA (acme_pr 7 ''gone'') = ''gone''" "MergeCommitSHA (acme_pr 7 ''void'') = ''void''"
    by (simp_all add: acme_pr_def)
  have r1: "fst (findPatchTree acme (acme_pr 10 ''m1'') []) =
     (0, Some (Wrap (New ''404 Not Found'') ''getting pr commits''))"
    by (rule path1 [OF acme_commits_10])
  have r2: "fst (findPatchTree acme (acme_pr 8 ''m1'') []) =
     (0, Some (New ''unable to find patch tree, commit list is empty''))"
    by (rule path2 [OF acme_commits_8])
  have r3: "fst (findPatchTree acme (acme_pr 7 ''gone'') []) =
     (0, Some (Wrap (New ''502 Bad Gateway'') ''querying GitHub for merge commit gone''))"
    using path3 [OF acme_commits_7 ne gone, of "[]"] by (simp add: sha)
  have r4: "fst (findPatchTree acme (acme_pr 7 ''void'') []) =
     (0, Some (New ''commit returned empty when querying sha void''))"
    using path4 [OF acme_commits_7 ne void, of "[]"] by (simp add: sha)
  have k3: "1 < length (Parents (NewCommit acme (gh_Commit (ghCommit ''m3'' ''tz'' [''p0'', ''gone'', ''p1'']))))"
    by (simp add: acme_parents)
  have b3: "\<forall>j<1. \<exists>t'. fetchedTree acme (acme_pr 7 ''m3'')
                (Parents (NewCommit acme (gh_Commit (ghCommit ''m3'' ''tz'' [''p0'', ''gone'', ''p1'']))) ! j)
                  = Some t' \<and> t' \<noteq> TreeSHA (last ?cs)"
    by (simp add: acme_parents acme_fetchedTree)
  have f3: "fetchedTree acme (acme_pr 7 ''m3'')
              (Parents (NewCommit acme (gh_Commit (ghCommit ''m3'' ''tz'' [''p0'', ''gone'', ''p1'']))) ! 1) = None"
    by (simp add: acme_parents acme_fetchedTree)
  have r5: "fst (findPatchTree acme (acme_pr 7 ''m3'') []) =
     (0, Some (Wrap (New ''502 Bad Gateway'') ''querying GitHub for parent commit gone''))"
    using path5 [OF acme_commits_7 ne m3 k3 b3 [rule_format] f3, of "[]"]
    by (simp add: acme_parents acme_fetch acme_commit_def)
  have k4: "0 < length (Parents (NewCommit acme (gh_Commit (ghCommit ''m4'' ''tz'' [''void'', ''p1'']))))"
    by (simp add: acme_parents)
  have b4: "\<forall>j<0. \<exists>t'. fetchedTree acme (acme_pr 7 ''m4'')
                (Parents (NewCommit acme (gh_Commit (ghCommit ''m4'' ''tz'' [''void'', ''p1'']))) ! j)
                  = Some t' \<and> t' \<noteq> TreeSHA (last ?cs)"
    by simp
  have f4: "fetchedTree acme (acme_pr 7 ''m4'')
              (Parents (NewCommit acme (gh_Commit (ghCommit ''m4'' ''tz'' [''void'', ''p1'']))) ! 0) = None"
    by (simp add: acme_parents acme_fetchedTree)
  have r6: "fst (findPatchTree acme (acme_pr 7 ''m4'') []) =
     (0, Some (New ''commit returned empty when querying sha void''))"
    using path5 [OF acme_commits_7 ne m4 k4 b4 [rule_format] f4, of "[]"]
    by (simp add: acme_parents acme_fetch acme_commit_def)
  have n1: "\<forall>p\<in>set (Parents (NewCommit acme (gh_Commit (ghCommit ''m1'' ''ty'' [''p0''])))).
              \<exists>t'. fetchedTree acme (acme_pr 7 ''m1'') p = Some t' \<and> t' \<noteq> TreeSHA (last ?cs)"
    by (simp add: acme_parents acme_fetchedTree)
  have r7: "fst (findPatchTree acme (acme_pr 7 ''m1'') []) =
     (0, Some (New ''unable to find patch tree of merge commit among 1 parents''))"
    using path6 [OF acme_commits_7 ne m1 n1 [rule_format], of "[]"]
    by (simp add: acme_parents fmt_d_small)
  have "snd (fst (findPatchTree acme (acme_pr 7 ''m1'') [])) \<noteq> None" by (simp add: r7)
  then have r8: "fst (fst (findPatchTree acme (acme_pr 7 ''m1'') [])) = 0"
    by (rule path7)
  have ps5: "Parents (NewCommit acme (gh_Commit (ghCommit ''m5'' ''tz'' [''p1'', ''p0''])))
               = ?p1 # [?p0]"
    by (simp add: acme_parents)
  have t5: "fetchedTree acme (acme_pr 7 ''m5'') ?p1 = Some (TreeSHA (last ?cs))"
    by (simp add: acme_fetchedTree)
  have r9: "fst (findPatchTree acme (acme_pr 7 ''m5'') []) = (0, None)"
    by (rule path8 [OF acme_commits_7 ne m5 ps5 t5])
  from r1 r2 r3 r4 r5 r6 r7 r8 r9 show ?thesis by simp
qed

section \<open>The commit list\<close>

text \<open>
  \<^verbatim>\<open>getCommits\<close> returns the commits of the one page its call receives, whatever next
  page the response announces.
\<close>

lemma foldl_append_map:
  "foldl (\<lambda>list x. list @ [f x]) acc xs = acc @ map f xs"
  by (induction xs arbitrary: acc) simp_all

lemma getCommits_one_page:
  assumes "PullRequests_ListCommits w (RepoOwner pr) (RepoName pr) (Number pr) ListOptions_zero
             = Inr (commitList, resp)"
  shows "fst (getCommits w pr tr) = (map (\<lambda>c. NewCommit w (gh_Commit c)) commitList, None)"
  using assms by (simp add: getCommits_def Let_def foldl_append_map)

lemma acme_page1:
  "PullRequests_ListCommits acme (RepoOwner (acme_pr 9 sha)) (RepoName (acme_pr 9 sha))
     (Number (acme_pr 9 sha)) ListOptions_zero
   = Inr (map (\<lambda>i. ghCommit (''c'' @ decimal i) (''t'' @ decimal i) []) [1..<31], \<lparr>NextPage = 2\<rparr>)"
  by code_simp

text \<open>
  C9: on a pull request of thirty-one commits, listed by the platform in two pages,
  \<^verbatim>\<open>getCommits\<close> returns the thirty commits of the first page without an error. All
  pages together hold thirty-one commits; the last commit returned is the thirtieth, and
  the last commit of the pull request is the thirty-first.
\<close>

theorem getCommits_first_page_only:
  "fst (getCommits acme (acme_pr 9 ''m1'') []) =
     (map (\<lambda>i. MkCommit (''c'' @ decimal i) (''t'' @ decimal i) []) [1..<31], None)
   \<and> allPages 2 acme (acme_pr 9 ''m1'') 0 =
       Some (map (\<lambda>i. ghCommit (''c'' @ decimal i) (''t'' @ decimal i) []) [1..<32])
   \<and> SHA (last (fst (fst (getCommits acme (acme_pr 9 ''m1'') [])))) = ''c30''
   \<and> SHA (NewCommit acme (gh_Commit (last (the (allPages 2 acme (acme_pr 9 ''m1'') 0))))) = ''c31''"
  by code_simp

end
